theory Spec2Isabelle
  imports Main
begin

section \<open>The audio input widget (AudioInput.tsx)\<close>

text \<open>
  The widget is a React function component.  Its state is the tuple of \<open>useState\<close>
  cells declared at the top of \<open>AudioInput\<close>; its behaviour is the set of callbacks
  (\<open>uploadTheFile\<close>, the permission effect, \<open>initializeWaveSurfer\<close>,
  \<open>onClickPlayPause\<close>, \<open>startRecording\<close>, \<open>stopRecording\<close>, \<open>handleClear\<close>) and the
  handlers registered on the waveform backend and on the record plugin.  Each callback is
  embedded as a function from the state to the updated state.  JavaScript runs a callback
  to completion before the next one starts, and React re-renders between them, so every
  callback reads the state the previous one left.

  The browser and the collaborators the widget talks to (object URLs, the upload client,
  the widget manager, the pending promises) are part of the same record: the fields after
  \<open>hasNoMicPermissions\<close>.
\<close>

subsection \<open>Values\<close>

text \<open>
  A value of type \<open>string | null\<close> is a \<open>string option\<close>.  Several guards of the source
  test such a value for truthiness (\<open>!activeAudioDeviceId\<close>, \<open>deleteFileUrl &&\<close>,
  \<open>Boolean(recordingUrl)\<close>): \<open>null\<close> and the empty string are falsy.
\<close>

definition truthy :: "string option \<Rightarrow> bool" where
  "truthy x = (case x of None \<Rightarrow> False | Some str \<Rightarrow> str \<noteq> [])"

text \<open>
  Modelled from the spec: \<open>util/utils\<close> (\<open>isNullOrUndefined\<close>, \<open>notNullOrUndefined\<close>) is
  not among the sources.  The helpers test what their names say; the spec reads the guard
  of \<open>clear()\<close> built from them as "an UploadHandle exists".  Unlike truthiness, the
  empty string is a value for them.
\<close>

definition isNullOrUndefined :: "'a option \<Rightarrow> bool" where
  "isNullOrUndefined x = (x = None)"

definition notNullOrUndefined :: "'a option \<Rightarrow> bool" where
  "notNullOrUndefined x = (x \<noteq> None)"

text \<open>
  Modelled from the spec: \<open>./constants\<close> is not among the sources.  The spec gives the
  initial time code as "00:00".
\<close>

definition STARTING_TIME_STRING :: string where
  "STARTING_TIME_STRING = ''00:00''"

text \<open>
  The wave colour is either the theme's primary colour (\<open>theme.colors.primary\<close>, a prop)
  or a colour written out in the source.
\<close>

datatype colour = ThemePrimary | Hex string

record MediaDeviceInfo =
  deviceId :: string
  label :: string

record blob =
  bytes :: "nat list"
  mimeType :: string

text \<open>\<open>new File([blob], "audio.wav", { type: blob.type })\<close>\<close>

record File =
  fileName :: string
  fileType :: string
  content :: "nat list"

definition new_File :: "blob \<Rightarrow> string \<Rightarrow> string \<Rightarrow> File" where
  "new_File b name ty = \<lparr>fileName = name, fileType = ty, content = bytes b\<rparr>"

text \<open>
  One entry of \<open>successfulUploads\<close>: the source reads \<open>upload.fileUrl.deleteUrl\<close>, which
  the protocol types as an optional string.
\<close>

record FileURLs =
  fileId :: string
  uploadUrl :: string
  deleteUrl :: "string option"

record upload =
  fileUrl :: FileURLs

subsection \<open>The waveform backend and the record plugin\<close>

text \<open>
  Modelled from the spec: wavesurfer.js (\<open>WaveSurfer\<close>, \<open>RecordPlugin\<close>) is a collaborator
  whose code is not among the sources.  The spec lists what it exposes: \<open>create\<close>,
  \<open>setOptions\<close>, \<open>startRecording\<close>, \<open>stopRecording\<close>, \<open>isRecording\<close> and the events.
  The model keeps the part of each object the widget reads back or sets: the wave colour,
  whether audio is loaded, \<open>isPlaying()\<close>, \<open>isRecording()\<close>.  The plugin's
  \<open>startRecording\<close> returns a promise: the call itself changes nothing the widget can
  read, \<open>isRecording()\<close> holds once the promise is fulfilled, and it never holds if the
  promise is rejected (the microphone could not be started).
\<close>

record WaveSurfer =
  waveColor :: colour
  loaded :: bool
  playing :: bool

record RecordPlugin =
  recording :: bool

definition WaveSurfer_create :: WaveSurfer where
  "WaveSurfer_create = \<lparr>waveColor = ThemePrimary, loaded = False, playing = False\<rparr>"

definition RecordPlugin_create :: RecordPlugin where
  "RecordPlugin_create = \<lparr>recording = False\<rparr>"

definition ws_setOptions :: "colour \<Rightarrow> WaveSurfer \<Rightarrow> WaveSurfer" where
  "ws_setOptions c ws = ws\<lparr>waveColor := c\<rparr>"

definition ws_empty :: "WaveSurfer \<Rightarrow> WaveSurfer" where
  "ws_empty ws = ws\<lparr>loaded := False, playing := False\<rparr>"

definition ws_playPause :: "WaveSurfer \<Rightarrow> WaveSurfer" where
  "ws_playPause ws = ws\<lparr>playing := \<not> playing ws\<rparr>"

definition ws_load :: "WaveSurfer \<Rightarrow> WaveSurfer" where
  "ws_load ws = ws\<lparr>loaded := True, playing := False\<rparr>"

definition rp_recordStart :: "RecordPlugin \<Rightarrow> RecordPlugin" where
  "rp_recordStart rp = rp\<lparr>recording := True\<rparr>"

definition rp_stopRecording :: "RecordPlugin \<Rightarrow> RecordPlugin" where
  "rp_stopRecording rp = rp\<lparr>recording := False\<rparr>"

subsection \<open>The state\<close>

text \<open>
  Every call the widget makes on a collaborator is appended to \<open>calls\<close>, so that a
  callback that "does nothing" is one that returns the state it was given, log included.
\<close>

datatype call =
    WsSetOptions colour
  | WsEmpty
  | WsPlayPause
  | RpStartRecording string
  | RpStopRecording
  | CreateObjectURL blob
  | RevokeObjectURL string
  | UploadFiles File
  | DeleteFile string
  | SetFileUploaderStateValue

text \<open>
  The permission effect runs once per mount: \<open>getUserMedia\<close> is pending, then either
  rejected or fulfilled; when fulfilled, \<open>getAvailableAudioDevices\<close> is pending until it
  settles.
\<close>

datatype media_request = MediaPending | DevicesPending | MediaSettled

record state =
  wavesurfer :: "WaveSurfer option"
  deleteFileUrl :: "string option"
  recordPlugin :: "RecordPlugin option"
  availableAudioDevices :: "MediaDeviceInfo list"
  activeAudioDeviceId :: "string option"
  recordingUrl :: "string option"
  rerender :: nat
  progressTime :: string
  recordingTime :: string
  shouldUpdatePlaybackTime :: bool
  hasNoMicPermissions :: bool
  mediaRequest :: media_request
  liveUrls :: "string list"
  uploadsInFlight :: nat
  startsPending :: nat
  calls :: "call list"

text \<open>The state after the first render: the initial value of every \<open>useState\<close> cell.\<close>

definition initial :: state where
  "initial = \<lparr>wavesurfer = None, deleteFileUrl = None, recordPlugin = None,
     availableAudioDevices = [], activeAudioDeviceId = None, recordingUrl = None,
     rerender = 0, progressTime = STARTING_TIME_STRING,
     recordingTime = STARTING_TIME_STRING, shouldUpdatePlaybackTime = False,
     hasNoMicPermissions = False, mediaRequest = MediaPending, liveUrls = [],
     uploadsInFlight = 0, startsPending = 0,
     calls = []\<rparr>"

definition forceRerender :: "state \<Rightarrow> state" where
  "forceRerender s = s\<lparr>rerender := rerender s + 1\<rparr>"

subsection \<open>The callbacks\<close>

text \<open>
  The \<open>.then\<close> callback of \<open>uploadTheFile\<close>.  \<open>successfulUploads[0]\<close> on an empty array
  is \<open>undefined\<close> in JavaScript, which the guard \<open>upload && ...\<close> rejects.
\<close>

definition uploadTheFile_then :: "upload list \<Rightarrow> state \<Rightarrow> state" where
  "uploadTheFile_then successfulUploads s =
     (case successfulUploads of
        [] \<Rightarrow> s
      | up # _ \<Rightarrow>
          if truthy (deleteUrl (fileUrl up))
          then s\<lparr>deleteFileUrl := deleteUrl (fileUrl up)\<rparr>
          else s)"

text \<open>\<open>uploadTheFile\<close> itself: the call of \<open>uploadFiles\<close>, whose promise is then pending.\<close>

definition uploadTheFile :: "File \<Rightarrow> state \<Rightarrow> state" where
  "uploadTheFile f s =
     s\<lparr>uploadsInFlight := uploadsInFlight s + 1, calls := calls s @ [UploadFiles f]\<rparr>"

text \<open>The two callbacks of the permission effect.\<close>

definition getAvailableAudioDevices_then :: "MediaDeviceInfo list \<Rightarrow> state \<Rightarrow> state" where
  "getAvailableAudioDevices_then devices s =
     (let s1 = s\<lparr>availableAudioDevices := devices\<rparr>
      in if length devices > 0
         then s1\<lparr>activeAudioDeviceId := Some (deviceId (devices ! 0))\<rparr>
         else s1)"

definition getUserMedia_catch :: "state \<Rightarrow> state" where
  "getUserMedia_catch s = s\<lparr>hasNoMicPermissions := True\<rparr>"

text \<open>
  \<open>initializeWaveSurfer\<close>; the argument says whether \<open>waveSurferRef.current\<close> is attached.
\<close>

definition initializeWaveSurfer :: "bool \<Rightarrow> state \<Rightarrow> state" where
  "initializeWaveSurfer refAttached s =
     (if \<not> refAttached then s
      else s\<lparr>wavesurfer := Some WaveSurfer_create,
             recordPlugin := Some RecordPlugin_create\<rparr>)"

text \<open>
  Object URLs: \<open>liveUrls\<close> holds the URLs created and not yet revoked.  The string the
  browser returns from \<open>URL.createObjectURL\<close> is an argument.

  The \<open>record-end\<close> handler follows.  With \<open>renderRecordedAudio: true\<close> the plugin has loaded the
  recording into the backend when it emits the event.
\<close>

definition URL_createObjectURL :: "blob \<Rightarrow> string \<Rightarrow> state \<Rightarrow> state" where
  "URL_createObjectURL b url s =
     s\<lparr>liveUrls := liveUrls s @ [url], calls := calls s @ [CreateObjectURL b]\<rparr>"

definition URL_revokeObjectURL :: "string \<Rightarrow> state \<Rightarrow> state" where
  "URL_revokeObjectURL url s =
     s\<lparr>liveUrls := removeAll url (liveUrls s), calls := calls s @ [RevokeObjectURL url]\<rparr>"

definition record_end :: "blob \<Rightarrow> string \<Rightarrow> state \<Rightarrow> state" where
  "record_end b url s =
     (let s1 = URL_createObjectURL b url s;
          s2 = s1\<lparr>recordingUrl := Some url\<rparr>;
          s3 = uploadTheFile (new_File b ''audio.wav'' (mimeType b)) s2
      in s3\<lparr>wavesurfer := map_option (ws_setOptions (Hex ''#A5A5AA'')) (wavesurfer s3),
            calls := calls s3 @ [WsSetOptions (Hex ''#A5A5AA'')]\<rparr>)"

definition onClickPlayPause :: "state \<Rightarrow> state" where
  "onClickPlayPause s =
     (case wavesurfer s of
        None \<Rightarrow> s
      | Some ws \<Rightarrow>
          s\<lparr>wavesurfer := Some (ws_playPause ws), calls := calls s @ [WsPlayPause],
            shouldUpdatePlaybackTime := True\<rparr>)"

definition startRecording :: "state \<Rightarrow> state" where
  "startRecording s =
     (if recordPlugin s = None \<or> \<not> truthy (activeAudioDeviceId s) \<or> wavesurfer s = None
      then s
      else case (recordPlugin s, activeAudioDeviceId s, wavesurfer s) of
          (Some rp, Some dev, Some ws) \<Rightarrow>
            s\<lparr>wavesurfer := Some (ws_setOptions ThemePrimary ws),
              startsPending := startsPending s + 1,
              calls := calls s @ [WsSetOptions ThemePrimary, RpStartRecording dev]\<rparr>
        | _ \<Rightarrow> s)"

definition stopRecording :: "state \<Rightarrow> state" where
  "stopRecording s =
     (case recordPlugin s of
        None \<Rightarrow> s
      | Some rp \<Rightarrow>
          s\<lparr>recordPlugin := Some (rp_stopRecording rp),
            calls := calls s @ [RpStopRecording]\<rparr>)"

definition handleClear :: "state \<Rightarrow> state" where
  "handleClear s =
     (if isNullOrUndefined (wavesurfer s) \<or> isNullOrUndefined (deleteFileUrl s) then s
      else case (wavesurfer s, deleteFileUrl s) of
          (Some ws, Some del) \<Rightarrow>
            (let s1 = s\<lparr>recordingUrl := None,
                        wavesurfer := Some (ws_empty ws),
                        progressTime := STARTING_TIME_STRING,
                        recordingTime := STARTING_TIME_STRING,
                        deleteFileUrl := None,
                        shouldUpdatePlaybackTime := False,
                        calls := calls s @ [WsEmpty, DeleteFile del, SetFileUploaderStateValue]\<rparr>
             in if notNullOrUndefined (recordingUrl s)
                then (case recordingUrl s of
                        None \<Rightarrow> s1
                      | Some url \<Rightarrow> URL_revokeObjectURL url s1)
                else s1)
        | _ \<Rightarrow> s)"

subsection \<open>What the render shows\<close>

definition isRecording :: "state \<Rightarrow> bool" where
  "isRecording s = (case recordPlugin s of None \<Rightarrow> False | Some rp \<Rightarrow> recording rp)"

definition isPlaying :: "state \<Rightarrow> bool" where
  "isPlaying s = (case wavesurfer s of None \<Rightarrow> False | Some ws \<Rightarrow> playing ws)"

definition recordingUrlExists :: "state \<Rightarrow> bool" where
  "recordingUrlExists s = truthy (recordingUrl s)"

definition showPlaceholder :: "state \<Rightarrow> bool" where
  "showPlaceholder s =
     (\<not> isRecording s \<and> \<not> truthy (recordingUrl s) \<and> \<not> hasNoMicPermissions s)"

text \<open>The "Clear recording" toolbar action is rendered under \<open>deleteFileUrl &&\<close>.\<close>

definition clearRecordingShown :: "state \<Rightarrow> bool" where
  "clearRecordingShown s = truthy (deleteFileUrl s)"

definition timeCode :: "state \<Rightarrow> string" where
  "timeCode s = (if shouldUpdatePlaybackTime s then progressTime s else recordingTime s)"

text \<open>
  The source keeps no status field.  The render distinguishes four situations by the
  flags above: the no-permission notice (\<open>hasNoMicPermissions\<close>, which also disables the
  action button), a recording in progress (\<open>isRecording\<close>), a recording present
  (\<open>recordingUrlExists\<close>), and the placeholder (\<open>showPlaceholder\<close>).  The placeholder is
  shown from the first render on, so the source does not tell an idle or
  awaiting-permission widget from a ready one: all three are \<open>Ready\<close> here.
\<close>

datatype status = NoPermission | Recording | Recorded | Ready

definition status :: "state \<Rightarrow> status" where
  "status s =
     (if hasNoMicPermissions s then NoPermission
      else if isRecording s then Recording
      else if recordingUrlExists s then Recorded
      else Ready)"

subsection \<open>Events\<close>

text \<open>
  What can happen to a mounted widget: a promise of the permission effect settles, the
  effect that calls \<open>initializeWaveSurfer\<close> runs, the backend or the plugin emits an event
  (possible only once \<open>initializeWaveSurfer\<close> has created them and registered the
  handler), the user presses a button, the promise of the plugin's \<open>startRecording\<close>
  settles (the source re-renders in its \<open>.then\<close> and has no \<open>.catch\<close>), or the promise of
  \<open>uploadFiles\<close> settles.
  \<open>formatTime\<close> is not among the sources: the two time events carry the formatted string.
  The clear button can be pressed only while it is rendered.  When \<open>initializeWaveSurfer\<close>
  runs again, the state holds the new backend and plugin, and the events are read as
  events of these.
\<close>

datatype event =
    GetUserMediaResolved
  | GetUserMediaRejected
  | DevicesResolved "MediaDeviceInfo list"
  | InitializeWaveSurfer bool
  | TimeUpdate string
  | Pause
  | RecordEnd blob string
  | RecordProgress string
  | StartRecordingResolved
  | StartRecordingRejected
  | ClickPlayPause
  | ClickStart
  | ClickStop
  | ClickClear
  | UploadResolved "upload list"
  | UploadRejected

fun step :: "event \<Rightarrow> state \<Rightarrow> state" where
  "step GetUserMediaResolved s =
     (if mediaRequest s = MediaPending then s\<lparr>mediaRequest := DevicesPending\<rparr> else s)"
| "step GetUserMediaRejected s =
     (if mediaRequest s = MediaPending
      then (getUserMedia_catch s)\<lparr>mediaRequest := MediaSettled\<rparr> else s)"
| "step (DevicesResolved devices) s =
     (if mediaRequest s = DevicesPending
      then (getAvailableAudioDevices_then devices s)\<lparr>mediaRequest := MediaSettled\<rparr>
      else s)"
| "step (InitializeWaveSurfer refAttached) s = initializeWaveSurfer refAttached s"
| "step (TimeUpdate t) s = (if wavesurfer s = None then s else s\<lparr>progressTime := t\<rparr>)"
| "step Pause s = (if wavesurfer s = None then s else forceRerender s)"
| "step (RecordEnd b url) s =
     (if recordPlugin s = None then s
      else record_end b url (s\<lparr>wavesurfer := map_option ws_load (wavesurfer s)\<rparr>))"
| "step (RecordProgress t) s =
     (if recordPlugin s = None then s else s\<lparr>recordingTime := t\<rparr>)"
| "step StartRecordingResolved s =
     (if startsPending s = 0 \<or> recordPlugin s = None then s
      else forceRerender
             (s\<lparr>recordPlugin := map_option rp_recordStart (recordPlugin s),
                startsPending := startsPending s - 1\<rparr>))"
| "step StartRecordingRejected s =
     (if startsPending s = 0 then s else s\<lparr>startsPending := startsPending s - 1\<rparr>)"
| "step ClickPlayPause s = onClickPlayPause s"
| "step ClickStart s = startRecording s"
| "step ClickStop s = stopRecording s"
| "step ClickClear s = (if clearRecordingShown s then handleClear s else s)"
| "step (UploadResolved successfulUploads) s =
     (if uploadsInFlight s = 0 then s
      else uploadTheFile_then successfulUploads (s\<lparr>uploadsInFlight := uploadsInFlight s - 1\<rparr>))"
| "step UploadRejected s =
     (if uploadsInFlight s = 0 then s
      else s\<lparr>uploadsInFlight := uploadsInFlight s - 1\<rparr>)"

fun run :: "event list \<Rightarrow> state \<Rightarrow> state" where
  "run [] s = s"
| "run (e # es) s = run es (step e s)"

subsection \<open>A session used as the concrete input\<close>

text \<open>
  One microphone; a first take that is recorded and uploaded; a second take recorded over
  it, whose upload has not settled yet.
\<close>

definition mic :: MediaDeviceInfo where
  "mic = \<lparr>deviceId = ''mic-1'', label = ''Built-in microphone''\<rparr>"

definition take1 :: blob where
  "take1 = \<lparr>bytes = [82, 73, 70, 70], mimeType = ''audio/wav''\<rparr>"


definition stored1 :: upload where
  "stored1 = \<lparr>fileUrl = \<lparr>fileId = ''f1'', uploadUrl = ''/upload/f1'',
       deleteUrl = Some ''/delete/f1''\<rparr>\<rparr>"

definition first_take :: "event list" where
  "first_take = [InitializeWaveSurfer True, GetUserMediaResolved, DevicesResolved [mic],
     ClickStart, StartRecordingResolved, ClickStop, RecordEnd take1 ''blob:take-1'',
     UploadResolved [stored1]]"


subsection \<open>What holds in every reachable state\<close>

text \<open>
  The backend and the plugin are created together; a recording URL is only set by a handler
  of the plugin; an active device is only chosen once the device list has arrived, which
  excludes a denial; the plugin is only asked to record, and so only records, after \<open>startRecording\<close> passed
  its guard.
\<close>

definition inv :: "state \<Rightarrow> bool" where
  "inv s = ((recordPlugin s = None) = (wavesurfer s = None)
     \<and> (recordingUrl s = None \<or> wavesurfer s \<noteq> None)
     \<and> (mediaRequest s = MediaSettled \<or>
           (activeAudioDeviceId s = None \<and> availableAudioDevices s = []
             \<and> \<not> hasNoMicPermissions s))
     \<and> (activeAudioDeviceId s = None \<or> \<not> hasNoMicPermissions s)
     \<and> (truthy (activeAudioDeviceId s) \<or> (\<not> isRecording s \<and> startsPending s = 0)))"

section \<open>Properties\<close>

lemmas callback_defs = uploadTheFile_then_def uploadTheFile_def getAvailableAudioDevices_then_def
  getUserMedia_catch_def initializeWaveSurfer_def record_end_def onClickPlayPause_def
  startRecording_def stopRecording_def handleClear_def forceRerender_def
  URL_createObjectURL_def URL_revokeObjectURL_def isNullOrUndefined_def notNullOrUndefined_def
  clearRecordingShown_def

lemmas object_defs = WaveSurfer_create_def RecordPlugin_create_def ws_setOptions_def ws_empty_def
  ws_playPause_def ws_load_def rp_recordStart_def rp_stopRecording_def

lemma inv_initial: "inv initial"
  by (simp add: inv_def initial_def isRecording_def truthy_def)

lemma inv_step: "inv s \<Longrightarrow> inv (step e s)"
  by (cases e)
     (auto simp: inv_def callback_defs object_defs isRecording_def truthy_def Let_def
           split: option.splits list.splits if_splits)

lemma inv_run: "inv s \<Longrightarrow> inv (run es s)"
  by (induction es arbitrary: s) (simp_all add: inv_step)

lemma inv_reachable: "inv (run es initial)"
  by (simp add: inv_run inv_initial)

lemma run_append: "run (es1 @ es2) s = run es2 (run es1 s)"
  by (induction es1 arbitrary: s) simp_all

lemma denied_step: "hasNoMicPermissions s \<Longrightarrow> hasNoMicPermissions (step e s)"
  by (cases e)
     (auto simp: callback_defs Let_def split: option.splits list.splits if_splits)

lemma denied_run: "hasNoMicPermissions s \<Longrightarrow> hasNoMicPermissions (run es s)"
  by (induction es arbitrary: s) (simp_all add: denied_step)

lemma status_Recorded_iff:
  "(status s = Recorded) =
     (\<not> hasNoMicPermissions s \<and> \<not> isRecording s \<and> truthy (recordingUrl s))"
  by (simp add: status_def recordingUrlExists_def)

lemma startRecording_started:
  assumes "recordPlugin s = Some rp" and "activeAudioDeviceId s = Some dev" and "dev \<noteq> []"
    and "wavesurfer s = Some ws"
  shows "startRecording s =
     s\<lparr>wavesurfer := Some (ws_setOptions ThemePrimary ws),
       startsPending := startsPending s + 1,
       calls := calls s @ [WsSetOptions ThemePrimary, RpStartRecording dev]\<rparr>"
  using assms by (simp add: startRecording_def truthy_def)

subsection \<open>Object URLs\<close>


subsection \<open>Clearing\<close>

text \<open>
  C2.  In every state without a deletion URL, \<open>handleClear\<close> returns the state it was
  given: no field changes, no URL is revoked and no call (in particular no \<open>deleteFile\<close>)
  is logged.  Pressing the clear button, were it there, does the same.
\<close>

theorem handleClear_without_deleteFileUrl:
  "deleteFileUrl s = None \<Longrightarrow> handleClear s = s \<and> step ClickClear s = s"
  by (simp add: handleClear_def isNullOrUndefined_def)

theorem handleClear_without_deleteFileUrl_witness:
  "deleteFileUrl (run (take 7 first_take) initial) = None
   \<and> handleClear (run (take 7 first_take) initial) = run (take 7 first_take) initial"
proof -
  have h: "deleteFileUrl (run (take 7 first_take) initial) = None" by code_simp
  from handleClear_without_deleteFileUrl [OF h] h show ?thesis by simp
qed

text \<open>
  C3.  In every state the widget can reach in which a recording is shown (status
  \<open>Recorded\<close>) and a deletion URL is stored, \<open>handleClear\<close> leaves the status \<open>Ready\<close>,
  both time displays at the initial time code "00:00", no deletion URL, no recording URL,
  and the recording URL it found revoked.  (The backend exists in such a state: see C10.)
\<close>

theorem handleClear_recorded:
  assumes "s = run es initial" and "status s = Recorded" and "deleteFileUrl s \<noteq> None"
  shows "status (handleClear s) = Ready
    \<and> progressTime (handleClear s) = ''00:00''
    \<and> recordingTime (handleClear s) = ''00:00''
    \<and> deleteFileUrl (handleClear s) = None
    \<and> recordingUrl (handleClear s) = None
    \<and> recordingUrl s \<noteq> None
    \<and> the (recordingUrl s) \<notin> set (liveUrls (handleClear s))
    \<and> RevokeObjectURL (the (recordingUrl s)) \<in> set (calls (handleClear s))"
proof -
  from assms(2) have st: "\<not> hasNoMicPermissions s" "\<not> isRecording s" "truthy (recordingUrl s)"
    by (simp_all add: status_Recorded_iff)
  from st(3) obtain url where url: "recordingUrl s = Some url"
    by (auto simp: truthy_def split: option.splits)
  from assms(1) have "inv s" by (simp add: inv_reachable)
  with url obtain ws where ws: "wavesurfer s = Some ws"
    by (auto simp: inv_def)
  from assms(3) obtain del where del: "deleteFileUrl s = Some del" by auto
  have hc: "handleClear s =
      URL_revokeObjectURL url (s\<lparr>recordingUrl := None, wavesurfer := Some (ws_empty ws),
         progressTime := STARTING_TIME_STRING, recordingTime := STARTING_TIME_STRING,
         deleteFileUrl := None, shouldUpdatePlaybackTime := False,
         calls := calls s @ [WsEmpty, DeleteFile del, SetFileUploaderStateValue]\<rparr>)"
    by (simp add: handleClear_def isNullOrUndefined_def notNullOrUndefined_def url ws del)
  show ?thesis using st
    by (simp add: hc url URL_revokeObjectURL_def STARTING_TIME_STRING_def status_def
        isRecording_def recordingUrlExists_def truthy_def)
qed

theorem handleClear_recorded_witness:
  "status (run first_take initial) = Recorded \<and> deleteFileUrl (run first_take initial) \<noteq> None
   \<and> status (handleClear (run first_take initial)) = Ready
   \<and> progressTime (handleClear (run first_take initial)) = ''00:00''
   \<and> recordingTime (handleClear (run first_take initial)) = ''00:00''
   \<and> deleteFileUrl (handleClear (run first_take initial)) = None
   \<and> ''blob:take-1'' \<notin> set (liveUrls (handleClear (run first_take initial)))"
proof -
  have h1: "status (run first_take initial) = Recorded" by code_simp
  have h2: "deleteFileUrl (run first_take initial) \<noteq> None" by code_simp
  have u: "the (recordingUrl (run first_take initial)) = ''blob:take-1''" by code_simp
  from handleClear_recorded [OF refl h1 h2] u h1 h2 show ?thesis by simp
qed

text \<open>
  C10.  Even when a deletion URL is stored, \<open>handleClear\<close> returns the state it was given
  if the backend is null, and only then: with a deletion URL, it does something exactly
  when the backend exists.  Together with C2, its guard asks for both.
\<close>

theorem handleClear_needs_wavesurfer:
  "deleteFileUrl s \<noteq> None \<Longrightarrow> (handleClear s = s) = (wavesurfer s = None)"
proof (cases "wavesurfer s")
  case None
  then show ?thesis by (simp add: handleClear_def isNullOrUndefined_def)
next
  case (Some ws)
  assume d: "deleteFileUrl s \<noteq> None"
  from Some d have "deleteFileUrl (handleClear s) = None"
    by (auto simp: callback_defs Let_def split: option.splits)
  with d Some show ?thesis by auto
qed

theorem handleClear_needs_wavesurfer_witness:
  "deleteFileUrl (initial\<lparr>deleteFileUrl := Some ''/delete/f1''\<rparr>) \<noteq> None
   \<and> handleClear (initial\<lparr>deleteFileUrl := Some ''/delete/f1''\<rparr>) =
       initial\<lparr>deleteFileUrl := Some ''/delete/f1''\<rparr>
   \<and> handleClear (run first_take initial) \<noteq> run first_take initial"
proof -
  have h1: "deleteFileUrl (initial\<lparr>deleteFileUrl := Some ''/delete/f1''\<rparr>) \<noteq> None"
    by simp
  have w1: "wavesurfer (initial\<lparr>deleteFileUrl := Some ''/delete/f1''\<rparr>) = None"
    by (simp add: initial_def)
  have h2: "deleteFileUrl (run first_take initial) \<noteq> None" by code_simp
  have w2: "wavesurfer (run first_take initial) \<noteq> None" by code_simp
  from handleClear_needs_wavesurfer [OF h1] handleClear_needs_wavesurfer [OF h2] h1 w1 w2
  show ?thesis by simp
qed

subsection \<open>Permission and devices\<close>

text \<open>
  C4.  On a mount where \<open>getUserMedia\<close> was granted and the device list arrives, the
  widget stores the list as it is; when the list is not empty the active device is the
  one at index 0, and when it is empty there is no active device.
\<close>

theorem devices_resolved_selects_first:
  assumes "s = run es initial" and "mediaRequest s = DevicesPending"
  shows "availableAudioDevices (step (DevicesResolved devices) s) = devices
    \<and> activeAudioDeviceId (step (DevicesResolved devices) s) =
        (if devices = [] then None else Some (deviceId (devices ! 0)))"
proof -
  from assms(1) have "inv s" by (simp add: inv_reachable)
  with assms(2) have "activeAudioDeviceId s = None" by (auto simp: inv_def)
  with assms(2) show ?thesis
    by (simp add: getAvailableAudioDevices_then_def Let_def)
qed

theorem devices_resolved_selects_first_witness:
  "mediaRequest (run [InitializeWaveSurfer True, GetUserMediaResolved] initial) = DevicesPending
   \<and> activeAudioDeviceId
        (step (DevicesResolved [mic, \<lparr>deviceId = ''mic-2'', label = ''Headset''\<rparr>])
          (run [InitializeWaveSurfer True, GetUserMediaResolved] initial)) = Some ''mic-1''
   \<and> activeAudioDeviceId (step (DevicesResolved [])
        (run [InitializeWaveSurfer True, GetUserMediaResolved] initial)) = None"
proof -
  have h: "mediaRequest (run [InitializeWaveSurfer True, GetUserMediaResolved] initial)
      = DevicesPending"
    by code_simp
  from devices_resolved_selects_first
         [OF refl h, of "[mic, \<lparr>deviceId = ''mic-2'', label = ''Headset''\<rparr>]"]
       devices_resolved_selects_first [OF refl h, of "[]"] h
  show ?thesis by (simp add: mic_def)
qed

text \<open>
  C5.  Once \<open>getUserMedia\<close> has been rejected, whatever happens afterwards (any number of
  presses on the record button among it), the status is \<open>NoPermission\<close>, the plugin is not
  recording, and \<open>startRecording\<close> returns the state it was given.
\<close>

theorem denied_permission_blocks_recording:
  assumes "s1 = run es1 initial" and "mediaRequest s1 = MediaPending"
    and "s = run es2 (step GetUserMediaRejected s1)"
  shows "status s = NoPermission \<and> \<not> isRecording s \<and> startRecording s = s"
proof -
  have "hasNoMicPermissions (step GetUserMediaRejected s1)"
    using assms(2) by (simp add: getUserMedia_catch_def)
  then have denied: "hasNoMicPermissions s"
    using assms(3) by (simp add: denied_run)
  have "s = run (es1 @ GetUserMediaRejected # es2) initial"
    using assms(1,3) by (simp add: run_append)
  then have "inv s" by (simp add: inv_reachable)
  with denied have dev: "activeAudioDeviceId s = None" and rec: "\<not> isRecording s"
    by (auto simp: inv_def truthy_def)
  from dev have "startRecording s = s"
    by (simp add: startRecording_def truthy_def)
  with denied rec show ?thesis by (simp add: status_def)
qed

theorem denied_permission_blocks_recording_witness:
  "mediaRequest (run [InitializeWaveSurfer True] initial) = MediaPending
   \<and> status (run [ClickStart, ClickStop, ClickStart]
        (step GetUserMediaRejected (run [InitializeWaveSurfer True] initial))) = NoPermission"
proof -
  have h: "mediaRequest (run [InitializeWaveSurfer True] initial) = MediaPending"
    by code_simp
  from denied_permission_blocks_recording
         [OF refl h refl, of "[ClickStart, ClickStop, ClickStart]"] h
  show ?thesis by simp
qed

subsection \<open>Starting a recording\<close>

text \<open>
  C6.  The claim: \<open>startRecording\<close> starts a recording only from status \<open>Ready\<close> with an
  active device, and does nothing in every other state, a running recording included.
  The guard of \<open>startRecording\<close> does not look at the status.  With a recording shown
  (status \<open>Recorded\<close>) it asks the plugin for the next one, and the status is \<open>Recording\<close>
  once the plugin's promise is fulfilled; while the plugin is recording it calls the
  backend and the plugin again.
\<close>

theorem startRecording_from_Recorded:
  "status (run first_take initial) = Recorded
   \<and> calls (startRecording (run first_take initial)) =
       calls (run first_take initial) @ [WsSetOptions ThemePrimary, RpStartRecording ''mic-1'']
   \<and> status (run [ClickStart, StartRecordingResolved] (run first_take initial)) = Recording
   \<and> status (run (take 5 first_take) initial) = Recording
   \<and> calls (startRecording (run (take 5 first_take) initial)) =
       calls (run (take 5 first_take) initial)
         @ [WsSetOptions ThemePrimary, RpStartRecording ''mic-1'']"
  by code_simp

text \<open>
  C6, as the code has it.  In every reachable state: when the plugin and the backend exist
  and the active device id is a non-empty string, \<open>startRecording\<close> sets the wave colour
  and asks the plugin to record from that device, whatever the status; the status is as
  before when \<open>startRecording\<close> returns, and is \<open>Recording\<close> when the plugin's promise is
  fulfilled.  When one of the three is missing, \<open>startRecording\<close> returns the state it was
  given.
\<close>

theorem startRecording_guard:
  assumes "s = run es initial"
  shows "if recordPlugin s \<noteq> None \<and> truthy (activeAudioDeviceId s) \<and> wavesurfer s \<noteq> None
         then calls (startRecording s) =
                calls s @ [WsSetOptions ThemePrimary,
                           RpStartRecording (the (activeAudioDeviceId s))]
            \<and> status (startRecording s) = status s
            \<and> status (run [ClickStart, StartRecordingResolved] s) = Recording
         else startRecording s = s"
proof (cases "recordPlugin s \<noteq> None \<and> truthy (activeAudioDeviceId s) \<and> wavesurfer s \<noteq> None")
  case True
  then obtain rp dev ws where v: "recordPlugin s = Some rp" "activeAudioDeviceId s = Some dev"
      "dev \<noteq> []" "wavesurfer s = Some ws"
    by (auto simp: truthy_def split: option.splits)
  from assms have "inv s" by (simp add: inv_reachable)
  with v have "\<not> hasNoMicPermissions s" by (auto simp: inv_def)
  with v True show ?thesis
    by (simp add: startRecording_started status_def isRecording_def recordingUrlExists_def
        rp_recordStart_def forceRerender_def)
next
  case False
  then show ?thesis by (auto simp: startRecording_def)
qed

theorem startRecording_guard_witness:
  "status (startRecording (run first_take initial)) = Recorded
   \<and> status (run [ClickStart, StartRecordingResolved] (run first_take initial)) = Recording
   \<and> startRecording (run [InitializeWaveSurfer True] initial) =
       run [InitializeWaveSurfer True] initial"
proof -
  have g1: "recordPlugin (run first_take initial) \<noteq> None
     \<and> truthy (activeAudioDeviceId (run first_take initial))
     \<and> wavesurfer (run first_take initial) \<noteq> None" by code_simp
  have st: "status (run first_take initial) = Recorded" by code_simp
  have g2: "\<not> truthy (activeAudioDeviceId (run [InitializeWaveSurfer True] initial))"
    by code_simp
  from startRecording_guard [OF refl, of first_take] g1 st
       startRecording_guard [OF refl, of "[InitializeWaveSurfer True]"] g2
  show ?thesis by simp
qed

subsection \<open>Uploads\<close>

text \<open>
  C9.  When \<open>successfulUploads\<close> is empty, or its first entry has no deletion URL (null,
  or the empty string, which the guard rejects as well), the \<open>.then\<close> callback returns the
  state it was given: no deletion URL is stored.  Reading index 0 of an empty array gives
  \<open>undefined\<close> in JavaScript, which is the first case of the callback; there is no error
  branch.
\<close>

theorem uploadTheFile_then_nothing_to_store:
  "successfulUploads = [] \<or> \<not> truthy (deleteUrl (fileUrl (successfulUploads ! 0)))
   \<Longrightarrow> uploadTheFile_then successfulUploads s = s"
  by (auto simp: uploadTheFile_then_def split: list.splits)

theorem uploadTheFile_then_nothing_to_store_witness:
  "uploadTheFile_then [] (run (take 7 first_take) initial) = run (take 7 first_take) initial
   \<and> uploadTheFile_then
        [\<lparr>fileUrl = \<lparr>fileId = ''f1'', uploadUrl = ''/upload/f1'', deleteUrl = None\<rparr>\<rparr>]
        (run (take 7 first_take) initial) = run (take 7 first_take) initial"
proof -
  have h: "\<not> truthy (deleteUrl (fileUrl
      ([\<lparr>fileUrl = \<lparr>fileId = ''f1'', uploadUrl = ''/upload/f1'', deleteUrl = None\<rparr>\<rparr>] ! 0)))"
    by (simp add: truthy_def)
  from uploadTheFile_then_nothing_to_store [of "[]", OF disjI1 [OF refl]]
       uploadTheFile_then_nothing_to_store [OF disjI2 [OF h]]
  show ?thesis by simp
qed

text \<open>
  What a failed upload does (the promise of \<open>uploadFiles\<close> is rejected, or it is fulfilled
  with no successful upload) while the status is \<open>Recorded\<close>: the only change is that the
  upload is no longer pending.  The status is still \<open>Recorded\<close>, the deletion URL and with
  it the clear button are as before, and the recording URL, its being live and the backend
  are as they were.
\<close>

lemma upload_failure_changes_pending_only:
  assumes "status s = Recorded" and "0 < uploadsInFlight s"
    and "e = UploadRejected \<or> e = UploadResolved []"
  shows "step e s = s\<lparr>uploadsInFlight := uploadsInFlight s - 1\<rparr>
    \<and> status (step e s) = Recorded
    \<and> deleteFileUrl (step e s) = deleteFileUrl s
    \<and> clearRecordingShown (step e s) = clearRecordingShown s
    \<and> recordingUrl (step e s) = recordingUrl s
    \<and> liveUrls (step e s) = liveUrls s
    \<and> wavesurfer (step e s) = wavesurfer s"
proof -
  from assms(2,3) have eq: "step e s = s\<lparr>uploadsInFlight := uploadsInFlight s - 1\<rparr>"
    by (auto simp: uploadTheFile_then_def)
  have "status (s\<lparr>uploadsInFlight := uploadsInFlight s - 1\<rparr>) = status s"
    by (simp add: status_def isRecording_def recordingUrlExists_def)
  with assms(1) show ?thesis
    by (simp add: eq clearRecordingShown_def)
qed



end
